theory Spec2Isabelle
  imports Main
begin

section \<open>The membership cache (pkg/webhook/storageclasses.go)\<close>

text \<open>
  \<^verbatim>\<open>driverStorageClassesSet\<close> is a Go struct holding a reader/writer lock and a
  \<^verbatim>\<open>map[string]struct{}\<close>. The model is sequential: each method body runs
  atomically (which is what the lock is there for), so the lock itself carries no data and
  only the map is kept. A value of type \<^verbatim>\<open>struct{}\<close> is \<open>()\<close>. The map is the one
  allocated by \<^verbatim>\<open>make\<close> in \<^verbatim>\<open>NewServer\<close>, the only place where a handler is
  built, so it is never the nil map.
\<close>

record driverStorageClassesSet =
  classes :: "string \<rightharpoonup> unit"

text \<open>The literal of server.go, lines 58 to 60: a freshly made, empty map.\<close>

definition emptyDriverStorageClasses :: driverStorageClassesSet where
  "emptyDriverStorageClasses = \<lparr>classes = Map.empty\<rparr>"

text \<open>\<^verbatim>\<open>_, exist := s.classes[className]; return exist\<close>\<close>

definition has :: "driverStorageClassesSet \<Rightarrow> string \<Rightarrow> bool" where
  "has s className = (case classes s className of None \<Rightarrow> False | Some _ \<Rightarrow> True)"

text \<open>\<^verbatim>\<open>s.classes[className] = struct{}{}\<close>\<close>

definition add :: "driverStorageClassesSet \<Rightarrow> string \<Rightarrow> driverStorageClassesSet" where
  "add s className = s\<lparr>classes := (classes s)(className \<mapsto> ())\<rparr>"

text \<open>\<^verbatim>\<open>delete(s.classes, className)\<close>: the builtin never fails, whether the key is there or not.\<close>

definition remove :: "driverStorageClassesSet \<Rightarrow> string \<Rightarrow> driverStorageClassesSet" where
  "remove s className = s\<lparr>classes := (classes s)(className := None)\<rparr>"

subsection \<open>Sequences of cache operations\<close>

datatype cacheOp = OpAdd string | OpRemove string

fun opName :: "cacheOp \<Rightarrow> string" where
  "opName (OpAdd n) = n"
| "opName (OpRemove n) = n"

fun applyOp :: "driverStorageClassesSet \<Rightarrow> cacheOp \<Rightarrow> driverStorageClassesSet" where
  "applyOp s (OpAdd n) = add s n"
| "applyOp s (OpRemove n) = remove s n"

definition applyOps :: "cacheOp list \<Rightarrow> driverStorageClassesSet \<Rightarrow> driverStorageClassesSet" where
  "applyOps ops s = foldl applyOp s ops"

text \<open>
  The net effect as the specification words it: among the operations that mention the
  name, the last one is an add. A name that no operation mentions is absent.
\<close>

definition lastMentionIsAdd :: "string \<Rightarrow> cacheOp list \<Rightarrow> bool" where
  "lastMentionIsAdd name ops =
     (case rev (filter (\<lambda>op. opName op = name) ops) of
        [] \<Rightarrow> False
      | op # _ \<Rightarrow> op = OpAdd name)"

section \<open>The class watcher (pkg/webhook/server.go, lines 73 to 118)\<close>

text \<open>
  Of \<^verbatim>\<open>storagev1.StorageClass\<close> the event handlers read the name, the provisioner and
  the annotations.
\<close>

record StorageClass =
  Name :: string
  Provisioner :: string
  Annotations :: "string \<rightharpoonup> string"

text \<open>
  An event carries an \<^verbatim>\<open>interface{}\<close>. The type assertion
  \<^verbatim>\<open>obj.(*storagev1.StorageClass)\<close> succeeds exactly when the dynamic type is a
  pointer to a storage class, nil or not; every other value (the nil interface, the
  informer's tombstone for a missed delete) fails it.
\<close>

datatype obj = StorageClassPtr "StorageClass option" | OtherObj

datatype panic = NilPointerDereference

text \<open>Indexing a Go map of strings gives the empty string for a missing key (and for a nil map).\<close>

definition mapIndex :: "(string \<rightharpoonup> string) \<Rightarrow> string \<Rightarrow> string" where
  "mapIndex m k = (case m k of None \<Rightarrow> [] | Some v \<Rightarrow> v)"

fun AddFunc :: "string \<Rightarrow> obj \<Rightarrow> driverStorageClassesSet \<Rightarrow> panic + driverStorageClassesSet" where
  "AddFunc driverName OtherObj s = Inr s"
| "AddFunc driverName (StorageClassPtr None) s = Inl NilPointerDereference"
| "AddFunc driverName (StorageClassPtr (Some stc)) s =
     (if Provisioner stc = driverName then
        (let s1 = add s (Name stc) in
         if mapIndex (Annotations stc) ''storageclass.kubernetes.io/is-default-class'' = ''true''
         then Inr (add s1 [])
         else Inr s1)
      else Inr s)"

fun DeleteFunc :: "string \<Rightarrow> obj \<Rightarrow> driverStorageClassesSet \<Rightarrow> panic + driverStorageClassesSet" where
  "DeleteFunc driverName OtherObj s = Inr s"
| "DeleteFunc driverName (StorageClassPtr None) s = Inl NilPointerDereference"
| "DeleteFunc driverName (StorageClassPtr (Some stc)) s =
     (if Provisioner stc = driverName then
        (let s1 = remove s (Name stc) in
         if mapIndex (Annotations stc) ''storageclass.kubernetes.io/is-default-class'' = ''true''
         then Inr (remove s1 [])
         else Inr s1)
      else Inr s)"

text \<open>The update handler looks at the new object only.\<close>

fun UpdateFunc :: "string \<Rightarrow> obj \<Rightarrow> obj \<Rightarrow> driverStorageClassesSet \<Rightarrow> panic + driverStorageClassesSet" where
  "UpdateFunc driverName oldo OtherObj s = Inr s"
| "UpdateFunc driverName oldo (StorageClassPtr None) s = Inl NilPointerDereference"
| "UpdateFunc driverName oldo (StorageClassPtr (Some newstc)) s =
     (if Provisioner newstc = driverName then
        (let s1 = add s (Name newstc) in
         if mapIndex (Annotations newstc) ''storageclass.kubernetes.io/is-default-class'' = ''true''
         then Inr (add s1 [])
         else Inr s1)
      else Inr s)"

text \<open>
  The informer calls one handler per notification, in the order of the stream. A panic in
  a handler ends the process, so nothing is delivered after it.
\<close>

datatype event = Added obj | Updated obj obj | Deleted obj

fun deliver :: "string \<Rightarrow> event \<Rightarrow> driverStorageClassesSet \<Rightarrow> panic + driverStorageClassesSet" where
  "deliver driverName (Added ob) s = AddFunc driverName ob s"
| "deliver driverName (Updated oldo newo) s = UpdateFunc driverName oldo newo s"
| "deliver driverName (Deleted ob) s = DeleteFunc driverName ob s"

fun deliverAll :: "string \<Rightarrow> event list \<Rightarrow> driverStorageClassesSet \<Rightarrow> panic + driverStorageClassesSet" where
  "deliverAll driverName [] s = Inr s"
| "deliverAll driverName (e # es) s =
     (case deliver driverName e s of
        Inl p \<Rightarrow> Inl p
      | Inr s' \<Rightarrow> deliverAll driverName es s')"

text \<open>The object an event is about: the new one for an update.\<close>

fun eventObj :: "event \<Rightarrow> obj" where
  "eventObj (Added ob) = ob"
| "eventObj (Updated oldo newo) = newo"
| "eventObj (Deleted ob) = ob"

text \<open>
  What the specification calls carrying the is-default-class annotation set to true: the
  annotation is present with the value \<^verbatim>\<open>true\<close>.
\<close>

definition carriesDefaultAnnotation :: "StorageClass \<Rightarrow> bool" where
  "carriesDefaultAnnotation stc =
     (Annotations stc ''storageclass.kubernetes.io/is-default-class'' = Some ''true'')"

text \<open>
  The only events that can take the key \<open>n\<close> out of the cache: a delete of a class of
  this driver that is named \<open>n\<close>, or, for the sentinel, that carries the annotation.
\<close>

definition mayEvict :: "string \<Rightarrow> string \<Rightarrow> event \<Rightarrow> bool" where
  "mayEvict dn n e =
     (case e of
        Deleted (StorageClassPtr (Some stc)) \<Rightarrow>
          Provisioner stc = dn \<and> (Name stc = n \<or> (n = [] \<and> carriesDefaultAnnotation stc))
      | _ \<Rightarrow> False)"

section \<open>The admission endpoint (pkg/webhook/server.go, lines 131 to 194)\<close>

subsection \<open>The review envelope, the pod and the handler\<close>

text \<open>
  The Kubernetes types, with the fields the handler reads or writes. Byte slices are
  strings, the nil slice the empty one; a pointer field is an option. Fields of the
  library structs that the handler leaves at their zero value are not listed.
\<close>

record TypeMeta =
  Kind :: string
  APIVersion :: string

record AdmissionRequest =
  UID :: string
  Operation :: string
  Namespace :: string
  ObjectRaw :: string

record AdmissionResponse =
  respUID :: string
  Allowed :: bool
  PatchType :: "string option"
  Patch :: string

record AdmissionReview =
  typeMeta :: TypeMeta
  Request :: "AdmissionRequest option"
  Response :: "AdmissionResponse option"

text \<open>
  Of the pod the handler touches the name (in log lines) and the namespace; the rest is
  for the two pod predicates, whose code is in another file, and stays a type parameter.
\<close>

record 'spec Pod =
  podName :: string
  podNamespace :: string
  Spec :: 'spec

record 'client handler =
  k8sClient :: 'client
  driverReadyLabel :: string
  driverReadySelectorPodPatch :: string
  driverName :: string
  driverStorageClasses :: driverStorageClassesSet

text \<open>
  What the handler calls and this file does not define: the two JSON decoders and the
  encoder of \<^verbatim>\<open>encoding/json\<close> (an error is its message), and the two pod
  predicates of the package, called with the arguments the handler passes.
\<close>

record ('spec, 'client) externals =
  jsonDecodeReview :: "string \<Rightarrow> string + AdmissionReview"
  jsonUnmarshalPod :: "string \<Rightarrow> string + 'spec Pod"
  jsonMarshal :: "AdmissionReview \<Rightarrow> string + string"
  podHasDriverReadyLabelSelectorOrAffinity :: "'spec Pod \<Rightarrow> string \<Rightarrow> bool"
  podHasCsiGCSVolume :: "'spec Pod \<Rightarrow> string \<Rightarrow> 'client \<Rightarrow> driverStorageClassesSet \<Rightarrow> bool"

record httpRequest =
  Method :: string
  Body :: string

text \<open>What has been written to the \<^verbatim>\<open>http.ResponseWriter\<close> when the handler returns.\<close>

record httpResponse =
  statusCode :: nat
  header :: "string \<rightharpoonup> string"
  body :: string

text \<open>
  A handler either returns, having written a response, or panics; the server then drops
  the connection and nothing has been written.
\<close>

datatype outcome = Responded httpResponse | Panicked panic

subsection \<open>Constants of net/http and k8s.io/api/admission/v1\<close>

definition MethodPost :: string where
  "MethodPost = ''POST''"

definition StatusOK :: nat where
  "StatusOK = 200"

definition StatusBadRequest :: nat where
  "StatusBadRequest = 400"

definition StatusMethodNotAllowed :: nat where
  "StatusMethodNotAllowed = 405"

definition StatusInternalServerError :: nat where
  "StatusInternalServerError = 500"

text \<open>The entries of \<^verbatim>\<open>http.StatusText\<close> for the codes above; an unknown code gives the empty string.\<close>

definition StatusText :: "nat \<Rightarrow> string" where
  "StatusText code =
     (if code = 200 then ''OK''
      else if code = 400 then ''Bad Request''
      else if code = 405 then ''Method Not Allowed''
      else if code = 500 then ''Internal Server Error''
      else [])"

definition Create :: string where
  "Create = ''CREATE''"

definition PatchTypeJSONPatch :: string where
  "PatchTypeJSONPatch = ''JSONPatch''"

subsection \<open>Writing responses\<close>

text \<open>
  \<^verbatim>\<open>http.Error\<close> sets two headers, writes the status code and then the message
  followed by a newline.
\<close>

definition http_Error :: "string \<Rightarrow> nat \<Rightarrow> httpResponse" where
  "http_Error err code =
     \<lparr>statusCode = code,
      header = [''Content-Type'' \<mapsto> ''text/plain; charset=utf-8'',
                ''X-Content-Type-Options'' \<mapsto> ''nosniff''],
      body = err @ [CHR 0x0A]\<rparr>"

definition jsonOKResponse :: "(AdmissionReview \<Rightarrow> string + string) \<Rightarrow> AdmissionReview \<Rightarrow> httpResponse" where
  "jsonOKResponse marshal rsp =
     (case marshal rsp of
        Inl err \<Rightarrow> http_Error (''unable to encode response: '' @ err) StatusInternalServerError
      | Inr bts \<Rightarrow>
          \<lparr>statusCode = StatusOK,
           header = [''Content-Type'' \<mapsto> ''application/json''],
           body = bts\<rparr>)"

subsection \<open>The decision (lines 160 to 175) and the handler\<close>

definition admresp :: "('spec, 'client) externals \<Rightarrow> 'client handler \<Rightarrow> string \<Rightarrow> 'spec Pod \<Rightarrow> AdmissionResponse" where
  "admresp ext h uid pod =
     (let r = \<lparr>respUID = uid, Allowed = True, PatchType = None, Patch = []\<rparr> in
      if podHasDriverReadyLabelSelectorOrAffinity ext pod (driverReadyLabel h) then r
      else if podHasCsiGCSVolume ext pod (driverName h) (k8sClient h) (driverStorageClasses h)
      then r\<lparr>PatchType := Some PatchTypeJSONPatch, Patch := driverReadySelectorPodPatch h\<rparr>
      else r)"

text \<open>The message of line 145; the word create stands between two apostrophes.\<close>

definition unsupportedOperationMessage :: string where
  "unsupportedOperationMessage =
     ''unsupported admission operation, operation must be '' @ [CHR 0x27] @ ''create'' @ [CHR 0x27]"

text \<open>
  The handler has a pointer receiver; it is given the handler's state and returns it with
  the outcome. \<^verbatim>\<open>admrev.Request\<close> is a pointer that the decoder leaves nil when the
  body has no request member; reading \<^verbatim>\<open>.Operation\<close> through it panics.
\<close>

definition handleInjectDriverReadySelector ::
    "('spec, 'client) externals \<Rightarrow> 'client handler \<Rightarrow> httpRequest \<Rightarrow> outcome \<times> 'client handler" where
  "handleInjectDriverReadySelector ext h r =
     (if Method r \<noteq> MethodPost then
        (Responded (http_Error (StatusText StatusMethodNotAllowed) StatusMethodNotAllowed), h)
      else
        (case jsonDecodeReview ext (Body r) of
           Inl err \<Rightarrow>
             (Responded (http_Error (''unable to decode request: '' @ err) StatusBadRequest), h)
         | Inr admrev \<Rightarrow>
             (case Request admrev of
                None \<Rightarrow> (Panicked NilPointerDereference, h)
              | Some req \<Rightarrow>
                  if Operation req \<noteq> Create then
                    (Responded (http_Error unsupportedOperationMessage StatusBadRequest), h)
                  else
                    (case jsonUnmarshalPod ext (ObjectRaw req) of
                       Inl err \<Rightarrow>
                         (Responded (http_Error
                            (''unable to decode request object, expected v1/Pod: '' @ err)
                            StatusBadRequest), h)
                     | Inr pod0 \<Rightarrow>
                         (let pod = pod0\<lparr>podNamespace := Namespace req\<rparr> in
                          (Responded (jsonOKResponse (jsonMarshal ext)
                             \<lparr>typeMeta = typeMeta admrev,
                              Request = None,
                              Response = Some (admresp ext h (UID req) pod)\<rparr>), h))))))"

text \<open>Reading an outcome: the status code written, if any.\<close>

fun respondedWith :: "outcome \<Rightarrow> nat \<Rightarrow> bool" where
  "respondedWith (Responded w) code = (statusCode w = code)"
| "respondedWith (Panicked p) code = False"

section \<open>Sample values\<close>

text \<open>
  A driver, a few storage classes and a few requests on which the theorems below are run.
  The sample decoders are lookup tables and the sample pod predicates read a pod that is
  just the keys of its node selector and the storage classes of its claims; the theorems
  themselves hold for every choice of these functions.
\<close>

definition sampleDriver :: string where
  "sampleDriver = ''gcs.csi.ofek.dev''"

definition fastClass :: StorageClass where
  "fastClass =
     \<lparr>Name = ''fast'', Provisioner = ''gcs.csi.ofek.dev'',
      Annotations = [''storageclass.kubernetes.io/is-default-class'' \<mapsto> ''true'']\<rparr>"

definition plainClass :: StorageClass where
  "plainClass = \<lparr>Name = ''plain'', Provisioner = ''gcs.csi.ofek.dev'', Annotations = Map.empty\<rparr>"

text \<open>The class \<open>plain\<close> after its provisioner has changed away from the driver.\<close>

definition movedClass :: StorageClass where
  "movedClass = \<lparr>Name = ''plain'', Provisioner = ''kubernetes.io/gce-pd'', Annotations = Map.empty\<rparr>"

definition sampleReview :: "string \<Rightarrow> string \<Rightarrow> AdmissionReview" where
  "sampleReview op raw =
     \<lparr>typeMeta = \<lparr>Kind = ''AdmissionReview'', APIVersion = ''admission.k8s.io/v1''\<rparr>,
      Request = Some \<lparr>UID = ''7'', Operation = op, Namespace = ''prod'', ObjectRaw = raw\<rparr>,
      Response = None\<rparr>"

definition sampleDecodeReview :: "string \<Rightarrow> string + AdmissionReview" where
  "sampleDecodeReview b =
     (if b = ''{}'' then
        Inr \<lparr>typeMeta = \<lparr>Kind = [], APIVersion = []\<rparr>, Request = None, Response = None\<rparr>
      else if b = ''create labelled'' then Inr (sampleReview ''CREATE'' ''labelled'')
      else if b = ''create claiming'' then Inr (sampleReview ''CREATE'' ''claiming'')
      else if b = ''create broken'' then Inr (sampleReview ''CREATE'' ''broken'')
      else if b = ''delete labelled'' then Inr (sampleReview ''DELETE'' ''labelled'')
      else Inl ''invalid character'')"

definition sampleUnmarshalPod :: "string \<Rightarrow> string + (string list \<times> string list) Pod" where
  "sampleUnmarshalPod raw =
     (if raw = ''labelled'' then
        Inr \<lparr>podName = ''web'', podNamespace = [],
             Spec = ([''gcs.csi.ofek.dev/driver-ready''], [''fast''])\<rparr>
      else if raw = ''claiming'' then
        Inr \<lparr>podName = ''job'', podNamespace = [], Spec = ([], [''fast''])\<rparr>
      else Inl ''unexpected end of JSON input'')"

definition sampleMarshal :: "AdmissionReview \<Rightarrow> string + string" where
  "sampleMarshal review =
     Inr (case Response review of None \<Rightarrow> [] | Some a \<Rightarrow> respUID a @ '':'' @ Patch a)"

definition sampleExternals :: "(string list \<times> string list, unit) externals" where
  "sampleExternals =
     \<lparr>jsonDecodeReview = sampleDecodeReview,
      jsonUnmarshalPod = sampleUnmarshalPod,
      jsonMarshal = sampleMarshal,
      podHasDriverReadyLabelSelectorOrAffinity = (\<lambda>pod label. label \<in> set (fst (Spec pod))),
      podHasCsiGCSVolume = (\<lambda>pod dn client s. list_ex (has s) (snd (Spec pod)))\<rparr>"

definition sampleHandler :: "unit handler" where
  "sampleHandler =
     \<lparr>k8sClient = (),
      driverReadyLabel = ''gcs.csi.ofek.dev/driver-ready'',
      driverReadySelectorPodPatch = ''[add /spec/nodeSelector/driver-ready]'',
      driverName = ''gcs.csi.ofek.dev'',
      driverStorageClasses = add emptyDriverStorageClasses ''fast''\<rparr>"

section \<open>Properties of the cache\<close>

lemma has_add: "has (add s n) k = (k = n \<or> has s k)"
  by (simp add: has_def add_def)

lemma has_remove: "has (remove s n) k = (k \<noteq> n \<and> has s k)"
  by (simp add: has_def remove_def)

lemma has_empty: "\<not> has emptyDriverStorageClasses k"
  by (simp add: has_def emptyDriverStorageClasses_def)

lemma applyOps_snoc: "applyOps (ops @ [op]) s = applyOp (applyOps ops s) op"
  by (simp add: applyOps_def)

lemma lastMentionIsAdd_snoc:
  "lastMentionIsAdd n (ops @ [op]) =
     (if opName op = n then op = OpAdd n else lastMentionIsAdd n ops)"
  by (simp add: lastMentionIsAdd_def)

lemma has_applyOps:
  "has (applyOps ops emptyDriverStorageClasses) n = lastMentionIsAdd n ops"
proof (induction ops rule: rev_induct)
  case Nil
  show ?case by (simp add: applyOps_def has_empty lastMentionIsAdd_def)
next
  case (snoc op ops)
  show ?case
  proof (cases op)
    case (OpAdd m)
    with snoc show ?thesis
      by (auto simp: applyOps_snoc lastMentionIsAdd_snoc has_add)
  next
    case (OpRemove m)
    with snoc show ?thesis
      by (auto simp: applyOps_snoc lastMentionIsAdd_snoc has_remove)
  qed
qed

lemma add_idem: "add (add s n) n = add s n"
  by (simp add: add_def)

lemma remove_idem: "remove (remove s n) n = remove s n"
  by (simp add: remove_def)

lemma remove_absent: "\<not> has s n \<Longrightarrow> remove s n = s"
proof -
  assume "\<not> has s n"
  then have "classes s n = None"
    by (simp add: has_def split: option.splits)
  then have "(classes s)(n := None) = classes s"
    by (simp add: fun_upd_idem)
  then show ?thesis
    by (simp add: remove_def)
qed

text \<open>
  C5. Start from the empty cache and apply any finite sequence of adds and removes in
  order: \<open>has\<close> answers true for a name exactly when the last operation that mentions the
  name is an add. Adding twice is adding once, removing twice is removing once, and
  removing a name that is absent returns the cache as it was (\<open>remove\<close> has no error
  result at all).
\<close>

theorem has_reflects_net_effect:
  "(has (applyOps ops emptyDriverStorageClasses) name \<longleftrightarrow> lastMentionIsAdd name ops)
   \<and> add (add s name) name = add s name
   \<and> remove (remove s name) name = remove s name
   \<and> (\<not> has s name \<longrightarrow> remove s name = s)"
  by (simp add: has_applyOps add_idem remove_idem remove_absent)

theorem has_reflects_net_effect_witness:
  "has (applyOps [OpAdd ''fast'', OpRemove ''slow'', OpRemove ''fast'', OpAdd ''slow'']
          emptyDriverStorageClasses) ''slow''
   \<and> \<not> has (applyOps [OpAdd ''fast'', OpRemove ''slow'', OpRemove ''fast'', OpAdd ''slow'']
          emptyDriverStorageClasses) ''fast''
   \<and> \<not> has emptyDriverStorageClasses ''fast''
   \<and> remove emptyDriverStorageClasses ''fast'' = emptyDriverStorageClasses"
  using
    has_reflects_net_effect [of "[OpAdd ''fast'', OpRemove ''slow'', OpRemove ''fast'', OpAdd ''slow'']"
      "''slow''" emptyDriverStorageClasses]
    has_reflects_net_effect [of "[OpAdd ''fast'', OpRemove ''slow'', OpRemove ''fast'', OpAdd ''slow'']"
      "''fast''" emptyDriverStorageClasses]
  by (simp add: lastMentionIsAdd_def has_empty)

section \<open>Properties of the class watcher\<close>

lemma mapIndex_true:
  "(mapIndex (Annotations stc) ''storageclass.kubernetes.io/is-default-class'' = ''true'')
     = carriesDefaultAnnotation stc"
  by (simp add: mapIndex_def carriesDefaultAnnotation_def split: option.splits)

lemma AddFunc_matching:
  "Provisioner stc = dn \<Longrightarrow>
   AddFunc dn (StorageClassPtr (Some stc)) s =
     Inr (if carriesDefaultAnnotation stc then add (add s (Name stc)) [] else add s (Name stc))"
  by (simp add: mapIndex_true Let_def)

lemma UpdateFunc_matching:
  "Provisioner stc = dn \<Longrightarrow>
   UpdateFunc dn oldo (StorageClassPtr (Some stc)) s =
     Inr (if carriesDefaultAnnotation stc then add (add s (Name stc)) [] else add s (Name stc))"
  by (simp add: mapIndex_true Let_def)

lemma DeleteFunc_matching:
  "Provisioner stc = dn \<Longrightarrow>
   DeleteFunc dn (StorageClassPtr (Some stc)) s =
     Inr (if carriesDefaultAnnotation stc then remove (remove s (Name stc)) []
          else remove s (Name stc))"
  by (simp add: mapIndex_true Let_def)

lemma AddFunc_keeps: "AddFunc dn ob s = Inr s' \<Longrightarrow> has s k \<Longrightarrow> has s' k"
  by (cases "(dn, ob, s)" rule: AddFunc.cases) (auto simp: has_add Let_def split: if_splits)

lemma UpdateFunc_keeps: "UpdateFunc dn oldo newo s = Inr s' \<Longrightarrow> has s k \<Longrightarrow> has s' k"
  by (cases "(dn, oldo, newo, s)" rule: UpdateFunc.cases)
     (auto simp: has_add Let_def split: if_splits)

lemma UpdateFunc_other:
  "Provisioner stc \<noteq> dn \<Longrightarrow> UpdateFunc dn oldo (StorageClassPtr (Some stc)) s = Inr s"
  by simp

lemma DeleteFunc_other:
  "Provisioner stc \<noteq> dn \<Longrightarrow> DeleteFunc dn (StorageClassPtr (Some stc)) s = Inr s"
  by simp

text \<open>
  One event that carries no nil pointer and may not evict \<open>n\<close> is handled without a
  panic and leaves \<open>n\<close> in the cache.
\<close>

lemma deliver_keeps:
  assumes "eventObj e \<noteq> StorageClassPtr None" "has s n" "\<not> mayEvict dn n e"
  shows "\<exists>s'. deliver dn e s = Inr s' \<and> has s' n"
proof (cases e)
  case (Added ob)
  with assms show ?thesis
    by (cases ob; cases "case ob of StorageClassPtr x \<Rightarrow> x | _ \<Rightarrow> None")
       (auto simp: has_add Let_def)
next
  case (Updated oldo newo)
  with assms show ?thesis
    by (cases newo; cases "case newo of StorageClassPtr x \<Rightarrow> x | _ \<Rightarrow> None")
       (auto simp: has_add Let_def)
next
  case (Deleted ob)
  with assms show ?thesis
    by (cases ob; cases "case ob of StorageClassPtr x \<Rightarrow> x | _ \<Rightarrow> None")
       (auto simp: has_remove Let_def mayEvict_def mapIndex_true)
qed

lemma deliverAll_keeps:
  "\<forall>e\<in>set es. eventObj e \<noteq> StorageClassPtr None \<Longrightarrow> has s n \<Longrightarrow>
   \<forall>e\<in>set es. \<not> mayEvict dn n e \<Longrightarrow>
   \<exists>s'. deliverAll dn es s = Inr s' \<and> has s' n"
proof (induction es arbitrary: s)
  case Nil
  then show ?case by simp
next
  case (Cons e es)
  from Cons.prems obtain s1 where s1: "deliver dn e s = Inr s1" "has s1 n"
    using deliver_keeps [of e s n dn] by auto
  from Cons.IH [of s1] Cons.prems s1 show ?case
    by simp
qed

lemma not_mayEvict:
  assumes "n \<noteq> []"
    and "\<forall>stc. eventObj e = StorageClassPtr (Some stc) \<and> Name stc = n \<longrightarrow> Provisioner stc \<noteq> dn"
  shows "\<not> mayEvict dn n e"
  using assms by (auto simp: mayEvict_def split: event.splits obj.splits option.splits)

text \<open>
  An event that carries neither a nil pointer nor a class of this driver changes nothing.
\<close>

lemma deliver_other:
  assumes "eventObj e \<noteq> StorageClassPtr None"
    and "\<forall>c. eventObj e = StorageClassPtr (Some c) \<longrightarrow> Provisioner c \<noteq> dn"
  shows "deliver dn e s = Inr s"
proof (cases "eventObj e")
  case OtherObj
  then show ?thesis by (cases e) simp_all
next
  case (StorageClassPtr p)
  with assms(1) obtain c where c: "p = Some c" by (cases p) auto
  with StorageClassPtr assms(2) have "Provisioner c \<noteq> dn" by simp
  with StorageClassPtr c show ?thesis by (cases e) simp_all
qed

lemma deliverAll_other:
  "\<forall>e\<in>set es. eventObj e \<noteq> StorageClassPtr None
      \<and> (\<forall>c. eventObj e = StorageClassPtr (Some c) \<longrightarrow> Provisioner c \<noteq> dn) \<Longrightarrow>
   deliverAll dn es s = Inr s"
  by (induction es) (simp_all add: deliver_other)

text \<open>
  C3. An add event, and an update event whose new object is such a class, for a storage
  class whose provisioner is the driver name adds the class's name to the cache and,
  exactly when the class carries the is-default-class annotation with the value true, also
  the empty-string sentinel. A delete event for a class whose provisioner is the driver
  name removes the class's name and, exactly when the class carries that annotation, also
  the sentinel.
\<close>

theorem watcher_projects_matching_classes:
  "Provisioner stc = dn \<Longrightarrow>
     AddFunc dn (StorageClassPtr (Some stc)) s =
       Inr (if carriesDefaultAnnotation stc then add (add s (Name stc)) [] else add s (Name stc))
   \<and> UpdateFunc dn oldo (StorageClassPtr (Some stc)) s =
       Inr (if carriesDefaultAnnotation stc then add (add s (Name stc)) [] else add s (Name stc))
   \<and> DeleteFunc dn (StorageClassPtr (Some stc)) s =
       Inr (if carriesDefaultAnnotation stc then remove (remove s (Name stc)) []
            else remove s (Name stc))"
  by (simp only: AddFunc_matching UpdateFunc_matching DeleteFunc_matching simp_thms)

theorem watcher_projects_matching_classes_witness:
  "Provisioner fastClass = sampleDriver \<and> carriesDefaultAnnotation fastClass
   \<and> AddFunc sampleDriver (StorageClassPtr (Some fastClass)) emptyDriverStorageClasses =
       Inr (add (add emptyDriverStorageClasses ''fast'') [])
   \<and> UpdateFunc sampleDriver OtherObj (StorageClassPtr (Some fastClass)) emptyDriverStorageClasses =
       Inr (add (add emptyDriverStorageClasses ''fast'') [])
   \<and> DeleteFunc sampleDriver (StorageClassPtr (Some fastClass)) emptyDriverStorageClasses =
       Inr (remove (remove emptyDriverStorageClasses ''fast'') [])
   \<and> Provisioner plainClass = sampleDriver \<and> \<not> carriesDefaultAnnotation plainClass
   \<and> AddFunc sampleDriver (StorageClassPtr (Some plainClass)) emptyDriverStorageClasses =
       Inr (add emptyDriverStorageClasses ''plain'')
   \<and> DeleteFunc sampleDriver (StorageClassPtr (Some plainClass)) emptyDriverStorageClasses =
       Inr (remove emptyDriverStorageClasses ''plain'')"
  using
    watcher_projects_matching_classes [of fastClass sampleDriver emptyDriverStorageClasses OtherObj]
    watcher_projects_matching_classes [of plainClass sampleDriver emptyDriverStorageClasses OtherObj]
  by (simp add: fastClass_def plainClass_def sampleDriver_def carriesDefaultAnnotation_def)

text \<open>
  C4. An update event whose new object is a storage class with a provisioner other than
  the driver name returns the cache exactly as it was, whether or not the class's name is
  in it. More generally no update event and no add event, whatever it carries, takes any
  key out of the cache: among the three handlers only the delete handler calls
  \<open>remove\<close>.
\<close>

theorem update_other_provisioner_keeps_cache:
  "(Provisioner stc \<noteq> dn \<longrightarrow> UpdateFunc dn oldo (StorageClassPtr (Some stc)) s = Inr s)
   \<and> (UpdateFunc dn oldo newo s = Inr s' \<and> has s k \<longrightarrow> has s' k)
   \<and> (AddFunc dn ob s = Inr s' \<and> has s k \<longrightarrow> has s' k)"
  using UpdateFunc_other [of stc dn oldo s] UpdateFunc_keeps [of dn oldo newo s s' k]
    AddFunc_keeps [of dn ob s s' k]
  by blast

theorem update_other_provisioner_keeps_cache_witness:
  "Provisioner movedClass \<noteq> sampleDriver
   \<and> has (add emptyDriverStorageClasses ''plain'') (Name movedClass)
   \<and> UpdateFunc sampleDriver (StorageClassPtr (Some plainClass)) (StorageClassPtr (Some movedClass))
         (add emptyDriverStorageClasses ''plain'') =
       Inr (add emptyDriverStorageClasses ''plain'')
   \<and> AddFunc sampleDriver (StorageClassPtr (Some fastClass)) (add emptyDriverStorageClasses ''plain'')
       = Inr (add (add (add emptyDriverStorageClasses ''plain'') ''fast'') [])
   \<and> has (add (add (add emptyDriverStorageClasses ''plain'') ''fast'') []) ''plain''"
  using
    update_other_provisioner_keeps_cache [of movedClass sampleDriver
      "StorageClassPtr (Some plainClass)" "add emptyDriverStorageClasses ''plain''"
      "StorageClassPtr (Some movedClass)" "add emptyDriverStorageClasses ''plain''" "''plain''"
      "StorageClassPtr (Some fastClass)"]
    update_other_provisioner_keeps_cache [of movedClass sampleDriver
      "StorageClassPtr (Some plainClass)" "add emptyDriverStorageClasses ''plain''"
      "StorageClassPtr (Some movedClass)"
      "add (add (add emptyDriverStorageClasses ''plain'') ''fast'') []" "''plain''"
      "StorageClassPtr (Some fastClass)"]
  by (simp add: movedClass_def fastClass_def sampleDriver_def has_add mapIndex_def)

text \<open>
  C10. A delete event for a storage class whose provisioner is not the driver name returns
  the cache exactly as it was. Consequently, once a class's provisioner has changed away
  from the driver, the events about that class, its deletion included, remove nothing:
  \<^item> a class name that is in the cache stays in it through every sequence of events in which
    each event about a class of that name carries a provisioner other than the driver
    name, whatever the events about other classes do; the sequence is handled to the end
    and the name is still there. The name is a class name, hence not the empty string,
    which is the sentinel shared by all default classes;
  \<^item> a sequence of events that are all about classes with a provisioner other than the
    driver name leaves the whole cache, the sentinel included, as it was.

  The events are those the informer delivers, none carrying a nil pointer.
\<close>

theorem delete_other_provisioner_keeps_cache:
  "(Provisioner stc \<noteq> dn \<longrightarrow> DeleteFunc dn (StorageClassPtr (Some stc)) s = Inr s)
   \<and> (has s n \<and> n \<noteq> []
        \<and> (\<forall>e\<in>set es. eventObj e \<noteq> StorageClassPtr None)
        \<and> (\<forall>e\<in>set es. \<forall>c. eventObj e = StorageClassPtr (Some c) \<and> Name c = n
                \<longrightarrow> Provisioner c \<noteq> dn)
      \<longrightarrow> (\<exists>s'. deliverAll dn es s = Inr s' \<and> has s' n))
   \<and> ((\<forall>e\<in>set es. eventObj e \<noteq> StorageClassPtr None
                \<and> (\<forall>c. eventObj e = StorageClassPtr (Some c) \<longrightarrow> Provisioner c \<noteq> dn))
      \<longrightarrow> deliverAll dn es s = Inr s)"
proof (intro conjI impI)
  assume "Provisioner stc \<noteq> dn"
  then show "DeleteFunc dn (StorageClassPtr (Some stc)) s = Inr s"
    by (rule DeleteFunc_other)
next
  assume a: "has s n \<and> n \<noteq> []
        \<and> (\<forall>e\<in>set es. eventObj e \<noteq> StorageClassPtr None)
        \<and> (\<forall>e\<in>set es. \<forall>c. eventObj e = StorageClassPtr (Some c) \<and> Name c = n
                \<longrightarrow> Provisioner c \<noteq> dn)"
  then have "\<forall>e\<in>set es. \<not> mayEvict dn n e"
    using not_mayEvict [of n _ dn] by blast
  with a show "\<exists>s'. deliverAll dn es s = Inr s' \<and> has s' n"
    using deliverAll_keeps [of es s n dn] by blast
next
  assume "\<forall>e\<in>set es. eventObj e \<noteq> StorageClassPtr None
                \<and> (\<forall>c. eventObj e = StorageClassPtr (Some c) \<longrightarrow> Provisioner c \<noteq> dn)"
  then show "deliverAll dn es s = Inr s"
    by (rule deliverAll_other)
qed

theorem delete_other_provisioner_keeps_cache_witness:
  "Provisioner movedClass \<noteq> sampleDriver
   \<and> DeleteFunc sampleDriver (StorageClassPtr (Some movedClass))
        (add emptyDriverStorageClasses ''plain'') = Inr (add emptyDriverStorageClasses ''plain'')
   \<and> has (add emptyDriverStorageClasses ''plain'') ''plain''
   \<and> (\<exists>s'. deliverAll sampleDriver
          [Updated (StorageClassPtr (Some plainClass)) (StorageClassPtr (Some movedClass)),
           Added (StorageClassPtr (Some fastClass)),
           Deleted (StorageClassPtr (Some fastClass)),
           Deleted OtherObj,
           Deleted (StorageClassPtr (Some movedClass))]
          (add emptyDriverStorageClasses ''plain'') = Inr s' \<and> has s' ''plain'')
   \<and> deliverAll sampleDriver
        [Updated (StorageClassPtr (Some plainClass)) (StorageClassPtr (Some movedClass)),
         Deleted (StorageClassPtr (Some movedClass))]
        (add (add emptyDriverStorageClasses ''plain'') []) =
       Inr (add (add emptyDriverStorageClasses ''plain'') [])"
  using
    delete_other_provisioner_keeps_cache [of movedClass sampleDriver
      "add emptyDriverStorageClasses ''plain''" "''plain''"
      "[Updated (StorageClassPtr (Some plainClass)) (StorageClassPtr (Some movedClass)),
        Added (StorageClassPtr (Some fastClass)),
        Deleted (StorageClassPtr (Some fastClass)),
        Deleted OtherObj,
        Deleted (StorageClassPtr (Some movedClass))]"]
    delete_other_provisioner_keeps_cache [of movedClass sampleDriver
      "add (add emptyDriverStorageClasses ''plain'') []" "''plain''"
      "[Updated (StorageClassPtr (Some plainClass)) (StorageClassPtr (Some movedClass)),
        Deleted (StorageClassPtr (Some movedClass))]"]
  by (simp add: movedClass_def fastClass_def plainClass_def sampleDriver_def has_add)

section \<open>Properties of the admission endpoint\<close>

subsection \<open>One equation per path through the handler\<close>

lemma handle_not_post:
  "Method r \<noteq> MethodPost \<Longrightarrow>
   handleInjectDriverReadySelector ext h r =
     (Responded (http_Error ''Method Not Allowed'' 405), h)"
  by (simp add: handleInjectDriverReadySelector_def StatusText_def StatusMethodNotAllowed_def)

lemma handle_decode_error:
  "Method r = MethodPost \<Longrightarrow> jsonDecodeReview ext (Body r) = Inl err \<Longrightarrow>
   handleInjectDriverReadySelector ext h r =
     (Responded (http_Error (''unable to decode request: '' @ err) StatusBadRequest), h)"
  by (simp add: handleInjectDriverReadySelector_def)

lemma handle_nil_request:
  "Method r = MethodPost \<Longrightarrow> jsonDecodeReview ext (Body r) = Inr admrev \<Longrightarrow>
   Request admrev = None \<Longrightarrow>
   handleInjectDriverReadySelector ext h r = (Panicked NilPointerDereference, h)"
  by (simp add: handleInjectDriverReadySelector_def)

lemma handle_not_create:
  "Method r = MethodPost \<Longrightarrow> jsonDecodeReview ext (Body r) = Inr admrev \<Longrightarrow>
   Request admrev = Some req \<Longrightarrow> Operation req \<noteq> Create \<Longrightarrow>
   handleInjectDriverReadySelector ext h r =
     (Responded (http_Error unsupportedOperationMessage StatusBadRequest), h)"
  by (simp add: handleInjectDriverReadySelector_def)

lemma handle_pod_error:
  "Method r = MethodPost \<Longrightarrow> jsonDecodeReview ext (Body r) = Inr admrev \<Longrightarrow>
   Request admrev = Some req \<Longrightarrow> Operation req = Create \<Longrightarrow>
   jsonUnmarshalPod ext (ObjectRaw req) = Inl err \<Longrightarrow>
   handleInjectDriverReadySelector ext h r =
     (Responded (http_Error (''unable to decode request object, expected v1/Pod: '' @ err)
        StatusBadRequest), h)"
  by (simp add: handleInjectDriverReadySelector_def)

lemma handle_decided:
  "Method r = MethodPost \<Longrightarrow> jsonDecodeReview ext (Body r) = Inr admrev \<Longrightarrow>
   Request admrev = Some req \<Longrightarrow> Operation req = Create \<Longrightarrow>
   jsonUnmarshalPod ext (ObjectRaw req) = Inr pod0 \<Longrightarrow>
   handleInjectDriverReadySelector ext h r =
     (Responded (jsonOKResponse (jsonMarshal ext)
        \<lparr>typeMeta = typeMeta admrev, Request = None,
         Response = Some (admresp ext h (UID req) (pod0\<lparr>podNamespace := Namespace req\<rparr>))\<rparr>), h)"
  by (simp add: handleInjectDriverReadySelector_def)

lemma admresp_cases:
  "admresp ext h uid pod = \<lparr>respUID = uid, Allowed = True, PatchType = None, Patch = []\<rparr>
   \<or> admresp ext h uid pod =
       \<lparr>respUID = uid, Allowed = True, PatchType = Some PatchTypeJSONPatch,
        Patch = driverReadySelectorPodPatch h\<rparr>"
  by (simp add: admresp_def Let_def)

lemma admresp_allowed: "Allowed (admresp ext h uid pod)"
  by (simp add: admresp_def Let_def)

lemma admresp_labelled:
  "podHasDriverReadyLabelSelectorOrAffinity ext pod (driverReadyLabel h) \<Longrightarrow>
   admresp (ext\<lparr>podHasCsiGCSVolume := v\<rparr>) (h\<lparr>driverStorageClasses := c\<rparr>) uid pod =
     \<lparr>respUID = uid, Allowed = True, PatchType = None, Patch = []\<rparr>"
  by (simp add: admresp_def Let_def)

subsection \<open>Sample requests, evaluated\<close>

lemma sample_decode:
  "jsonDecodeReview sampleExternals ''create labelled'' = Inr (sampleReview ''CREATE'' ''labelled'')"
  "jsonDecodeReview sampleExternals ''create claiming'' = Inr (sampleReview ''CREATE'' ''claiming'')"
  "jsonDecodeReview sampleExternals ''create broken'' = Inr (sampleReview ''CREATE'' ''broken'')"
  "jsonDecodeReview sampleExternals ''delete labelled'' = Inr (sampleReview ''DELETE'' ''labelled'')"
  "jsonDecodeReview sampleExternals ''not json'' = Inl ''invalid character''"
  "jsonDecodeReview sampleExternals ''{}'' =
     Inr \<lparr>typeMeta = \<lparr>Kind = [], APIVersion = []\<rparr>, Request = None, Response = None\<rparr>"
  by (simp_all add: sampleExternals_def sampleDecodeReview_def)

lemma sample_request:
  "Request (sampleReview op raw) =
     Some \<lparr>UID = ''7'', Operation = op, Namespace = ''prod'', ObjectRaw = raw\<rparr>"
  "typeMeta (sampleReview op raw) =
     \<lparr>Kind = ''AdmissionReview'', APIVersion = ''admission.k8s.io/v1''\<rparr>"
  by (simp_all add: sampleReview_def)

lemma sample_pod:
  "jsonUnmarshalPod sampleExternals ''labelled'' =
     Inr \<lparr>podName = ''web'', podNamespace = [],
          Spec = ([''gcs.csi.ofek.dev/driver-ready''], [''fast''])\<rparr>"
  "jsonUnmarshalPod sampleExternals ''claiming'' =
     Inr \<lparr>podName = ''job'', podNamespace = [], Spec = ([], [''fast''])\<rparr>"
  "jsonUnmarshalPod sampleExternals ''broken'' = Inl ''unexpected end of JSON input''"
  by (simp_all add: sampleExternals_def sampleUnmarshalPod_def)

subsection \<open>The claims about the endpoint\<close>

text \<open>
  C1. A request that reaches the decision step (the method is POST, the body decodes to a
  review envelope that carries a request, the operation is create, the embedded object
  decodes to a pod) is answered through \<open>jsonOKResponse\<close> with an envelope whose
  response has \<open>Allowed\<close> set to true and echoes the request's UID. That response is
  one of two values: the one without a patch, or the one carrying the handler's
  pre-computed patch together with the JSON-patch type. Nothing else varies.
\<close>

theorem decision_always_allows:
  assumes "Method r = MethodPost"
    and "jsonDecodeReview ext (Body r) = Inr admrev"
    and "Request admrev = Some req"
    and "Operation req = Create"
    and "jsonUnmarshalPod ext (ObjectRaw req) = Inr pod0"
  shows "\<exists>a. handleInjectDriverReadySelector ext h r =
            (Responded (jsonOKResponse (jsonMarshal ext)
               \<lparr>typeMeta = typeMeta admrev, Request = None, Response = Some a\<rparr>), h)
          \<and> Allowed a
          \<and> (a = \<lparr>respUID = UID req, Allowed = True, PatchType = None, Patch = []\<rparr>
             \<or> a = \<lparr>respUID = UID req, Allowed = True, PatchType = Some PatchTypeJSONPatch,
                   Patch = driverReadySelectorPodPatch h\<rparr>)"
proof -
  let ?a = "admresp ext h (UID req) (pod0\<lparr>podNamespace := Namespace req\<rparr>)"
  have "handleInjectDriverReadySelector ext h r =
          (Responded (jsonOKResponse (jsonMarshal ext)
             \<lparr>typeMeta = typeMeta admrev, Request = None, Response = Some ?a\<rparr>), h)"
    using assms by (rule handle_decided)
  moreover have "Allowed ?a"
    by (rule admresp_allowed)
  moreover have "?a = \<lparr>respUID = UID req, Allowed = True, PatchType = None, Patch = []\<rparr>
             \<or> ?a = \<lparr>respUID = UID req, Allowed = True, PatchType = Some PatchTypeJSONPatch,
                   Patch = driverReadySelectorPodPatch h\<rparr>"
    by (rule admresp_cases)
  ultimately show ?thesis by blast
qed

theorem decision_always_allows_witness:
  "Method \<lparr>Method = ''POST'', Body = ''create claiming''\<rparr> = MethodPost
   \<and> Operation \<lparr>UID = ''7'', Operation = ''CREATE'', Namespace = ''prod'', ObjectRaw = ''claiming''\<rparr>
       = Create
   \<and> (\<exists>a. handleInjectDriverReadySelector sampleExternals sampleHandler
            \<lparr>Method = ''POST'', Body = ''create claiming''\<rparr> =
            (Responded (jsonOKResponse (jsonMarshal sampleExternals)
               \<lparr>typeMeta = \<lparr>Kind = ''AdmissionReview'', APIVersion = ''admission.k8s.io/v1''\<rparr>,
                Request = None, Response = Some a\<rparr>), sampleHandler)
          \<and> Allowed a
          \<and> (a = \<lparr>respUID = ''7'', Allowed = True, PatchType = None, Patch = []\<rparr>
             \<or> a = \<lparr>respUID = ''7'', Allowed = True, PatchType = Some PatchTypeJSONPatch,
                   Patch = driverReadySelectorPodPatch sampleHandler\<rparr>))"
proof -
  have h1: "Method \<lparr>Method = ''POST'', Body = ''create claiming''\<rparr> = MethodPost"
    by (simp add: MethodPost_def)
  have h2: "jsonDecodeReview sampleExternals (Body \<lparr>Method = ''POST'', Body = ''create claiming''\<rparr>)
              = Inr (sampleReview ''CREATE'' ''claiming'')"
    by (simp add: sample_decode)
  have h3: "Request (sampleReview ''CREATE'' ''claiming'') =
              Some \<lparr>UID = ''7'', Operation = ''CREATE'', Namespace = ''prod'', ObjectRaw = ''claiming''\<rparr>"
    by (rule sample_request)
  have h4: "Operation \<lparr>UID = ''7'', Operation = ''CREATE'', Namespace = ''prod'', ObjectRaw = ''claiming''\<rparr>
              = Create"
    by (simp add: Create_def)
  have h5: "jsonUnmarshalPod sampleExternals
              (ObjectRaw \<lparr>UID = ''7'', Operation = ''CREATE'', Namespace = ''prod'', ObjectRaw = ''claiming''\<rparr>)
              = Inr \<lparr>podName = ''job'', podNamespace = [], Spec = ([], [''fast''])\<rparr>"
    by (simp add: sample_pod)
  show ?thesis
    using h1 h4 decision_always_allows [OF h1 h2 h3 h4 h5, of sampleHandler]
    by (simp add: sample_request)
qed

text \<open>
  C2. When the pod of such a request already expresses the readiness preference (the
  predicate \<open>podHasDriverReadyLabelSelectorOrAffinity\<close> answers true for the pod and the
  handler's readiness label), the response carries no patch and no patch type, whatever
  the volume predicate \<open>v\<close> would answer and whatever cache \<open>c\<close> the handler holds.
  The handler's state after the call is its state before the call, so a second
  invocation answers the same and changes nothing.
\<close>

theorem labelled_pod_never_patched:
  assumes "Method r = MethodPost"
    and "jsonDecodeReview ext (Body r) = Inr admrev"
    and "Request admrev = Some req"
    and "Operation req = Create"
    and "jsonUnmarshalPod ext (ObjectRaw req) = Inr pod0"
    and "podHasDriverReadyLabelSelectorOrAffinity ext
           (pod0\<lparr>podNamespace := Namespace req\<rparr>) (driverReadyLabel h)"
  shows "handleInjectDriverReadySelector (ext\<lparr>podHasCsiGCSVolume := v\<rparr>)
           (h\<lparr>driverStorageClasses := c\<rparr>) r =
           (Responded (jsonOKResponse (jsonMarshal ext)
              \<lparr>typeMeta = typeMeta admrev, Request = None,
               Response = Some \<lparr>respUID = UID req, Allowed = True, PatchType = None, Patch = []\<rparr>\<rparr>),
            h\<lparr>driverStorageClasses := c\<rparr>)
       \<and> handleInjectDriverReadySelector ext (snd (handleInjectDriverReadySelector ext h r)) r =
           handleInjectDriverReadySelector ext h r"
proof
  show "handleInjectDriverReadySelector (ext\<lparr>podHasCsiGCSVolume := v\<rparr>)
           (h\<lparr>driverStorageClasses := c\<rparr>) r =
           (Responded (jsonOKResponse (jsonMarshal ext)
              \<lparr>typeMeta = typeMeta admrev, Request = None,
               Response = Some \<lparr>respUID = UID req, Allowed = True, PatchType = None, Patch = []\<rparr>\<rparr>),
            h\<lparr>driverStorageClasses := c\<rparr>)"
    using assms
      handle_decided [of r "ext\<lparr>podHasCsiGCSVolume := v\<rparr>" admrev req pod0
        "h\<lparr>driverStorageClasses := c\<rparr>"]
      admresp_labelled [of ext "pod0\<lparr>podNamespace := Namespace req\<rparr>" h v c "UID req"]
    by simp
  have "snd (handleInjectDriverReadySelector ext h r) = h"
    using assms handle_decided [of r ext admrev req pod0 h] by simp
  then show "handleInjectDriverReadySelector ext (snd (handleInjectDriverReadySelector ext h r)) r =
           handleInjectDriverReadySelector ext h r"
    by simp
qed

theorem labelled_pod_never_patched_witness:
  "podHasDriverReadyLabelSelectorOrAffinity sampleExternals
     (\<lparr>podName = ''web'', podNamespace = [],
       Spec = ([''gcs.csi.ofek.dev/driver-ready''], [''fast''])\<rparr>\<lparr>podNamespace := ''prod''\<rparr>)
     (driverReadyLabel sampleHandler)
   \<and> handleInjectDriverReadySelector
       (sampleExternals\<lparr>podHasCsiGCSVolume := (\<lambda>pod dn client s. True)\<rparr>)
       (sampleHandler\<lparr>driverStorageClasses := emptyDriverStorageClasses\<rparr>)
       \<lparr>Method = ''POST'', Body = ''create labelled''\<rparr> =
       (Responded (jsonOKResponse (jsonMarshal sampleExternals)
          \<lparr>typeMeta = \<lparr>Kind = ''AdmissionReview'', APIVersion = ''admission.k8s.io/v1''\<rparr>,
           Request = None,
           Response = Some \<lparr>respUID = ''7'', Allowed = True, PatchType = None, Patch = []\<rparr>\<rparr>),
        sampleHandler\<lparr>driverStorageClasses := emptyDriverStorageClasses\<rparr>)"
proof -
  have h1: "Method \<lparr>Method = ''POST'', Body = ''create labelled''\<rparr> = MethodPost"
    by (simp add: MethodPost_def)
  have h2: "jsonDecodeReview sampleExternals (Body \<lparr>Method = ''POST'', Body = ''create labelled''\<rparr>)
              = Inr (sampleReview ''CREATE'' ''labelled'')"
    by (simp add: sample_decode)
  have h3: "Request (sampleReview ''CREATE'' ''labelled'') =
              Some \<lparr>UID = ''7'', Operation = ''CREATE'', Namespace = ''prod'', ObjectRaw = ''labelled''\<rparr>"
    by (rule sample_request)
  have h4: "Operation \<lparr>UID = ''7'', Operation = ''CREATE'', Namespace = ''prod'', ObjectRaw = ''labelled''\<rparr>
              = Create"
    by (simp add: Create_def)
  have h5: "jsonUnmarshalPod sampleExternals
              (ObjectRaw \<lparr>UID = ''7'', Operation = ''CREATE'', Namespace = ''prod'', ObjectRaw = ''labelled''\<rparr>)
              = Inr \<lparr>podName = ''web'', podNamespace = [],
                     Spec = ([''gcs.csi.ofek.dev/driver-ready''], [''fast''])\<rparr>"
    by (simp add: sample_pod)
  have h6: "podHasDriverReadyLabelSelectorOrAffinity sampleExternals
              (\<lparr>podName = ''web'', podNamespace = [],
                Spec = ([''gcs.csi.ofek.dev/driver-ready''], [''fast''])\<rparr>
                 \<lparr>podNamespace := Namespace \<lparr>UID = ''7'', Operation = ''CREATE'',
                     Namespace = ''prod'', ObjectRaw = ''labelled''\<rparr>\<rparr>)
              (driverReadyLabel sampleHandler)"
    by (simp add: sampleExternals_def sampleHandler_def)
  show ?thesis
    using h6 labelled_pod_never_patched [OF h1 h2 h3 h4 h5 h6,
        of "\<lambda>pod dn client s. True" emptyDriverStorageClasses]
    by (simp add: sample_request)
qed

text \<open>
  C6 (as the code has it). A request whose method is not POST is answered with status 405,
  Method Not Allowed, and the text of that status as the message; the body is not read
  and the handler's state is unchanged. The status is not 400.
\<close>

theorem non_post_answers_405:
  "Method r \<noteq> MethodPost \<Longrightarrow>
   handleInjectDriverReadySelector ext h r =
     (Responded (http_Error ''Method Not Allowed'' StatusMethodNotAllowed), h)
   \<and> StatusMethodNotAllowed = 405
   \<and> respondedWith (fst (handleInjectDriverReadySelector ext h r)) 405"
  by (simp add: handle_not_post http_Error_def StatusMethodNotAllowed_def)

theorem non_post_answers_405_witness:
  "Method \<lparr>Method = ''GET'', Body = []\<rparr> \<noteq> MethodPost
   \<and> handleInjectDriverReadySelector sampleExternals sampleHandler \<lparr>Method = ''GET'', Body = []\<rparr> =
       (Responded (http_Error ''Method Not Allowed'' 405), sampleHandler)
   \<and> respondedWith
       (fst (handleInjectDriverReadySelector sampleExternals sampleHandler
          \<lparr>Method = ''GET'', Body = []\<rparr>)) 405"
proof -
  have h1: "Method \<lparr>Method = ''GET'', Body = []\<rparr> \<noteq> MethodPost"
    by (simp add: MethodPost_def)
  show ?thesis
    using h1 non_post_answers_405 [OF h1, of sampleExternals sampleHandler]
    by (simp add: StatusMethodNotAllowed_def http_Error_def)
qed

text \<open>
  The claim as it is written, that such a request is answered with status 400, fails for
  a GET request: the status written is 405.
\<close>

theorem non_post_status_counterexample:
  "Method \<lparr>Method = ''GET'', Body = []\<rparr> \<noteq> MethodPost
   \<and> \<not> respondedWith
       (fst (handleInjectDriverReadySelector sampleExternals sampleHandler
          \<lparr>Method = ''GET'', Body = []\<rparr>)) 400
   \<and> respondedWith
       (fst (handleInjectDriverReadySelector sampleExternals sampleHandler
          \<lparr>Method = ''GET'', Body = []\<rparr>)) 405"
proof -
  have h1: "Method \<lparr>Method = ''GET'', Body = []\<rparr> \<noteq> MethodPost"
    by (simp add: MethodPost_def)
  show ?thesis
    using h1 by (simp add: handle_not_post [OF h1] http_Error_def)
qed

text \<open>
  C7. A POST request is answered with status 400 and a non-empty message (the body
  written is the message and a newline) in each of three cases: the body does not decode
  to a review envelope; it decodes, carries a request, and the operation is not create;
  the operation is create and the embedded object does not decode to a pod. In each case
  the handler's state after the call, the membership cache in particular, is the state
  before the call.
\<close>

theorem bad_request_answers_400:
  assumes "Method r = MethodPost"
    and "(\<exists>err. jsonDecodeReview ext (Body r) = Inl err)
       \<or> (\<exists>admrev req. jsonDecodeReview ext (Body r) = Inr admrev \<and> Request admrev = Some req
             \<and> Operation req \<noteq> Create)
       \<or> (\<exists>admrev req err. jsonDecodeReview ext (Body r) = Inr admrev
             \<and> Request admrev = Some req \<and> Operation req = Create
             \<and> jsonUnmarshalPod ext (ObjectRaw req) = Inl err)"
  shows "\<exists>msg. msg \<noteq> []
           \<and> handleInjectDriverReadySelector ext h r =
               (Responded (http_Error msg StatusBadRequest), h)
           \<and> respondedWith (fst (handleInjectDriverReadySelector ext h r)) 400
           \<and> body (http_Error msg StatusBadRequest) = msg @ [CHR 0x0A]
           \<and> driverStorageClasses (snd (handleInjectDriverReadySelector ext h r)) =
               driverStorageClasses h"
proof -
  have fin: "\<exists>msg. msg \<noteq> []
           \<and> handleInjectDriverReadySelector ext h r =
               (Responded (http_Error msg StatusBadRequest), h)
           \<and> respondedWith (fst (handleInjectDriverReadySelector ext h r)) 400
           \<and> body (http_Error msg StatusBadRequest) = msg @ [CHR 0x0A]
           \<and> driverStorageClasses (snd (handleInjectDriverReadySelector ext h r)) =
               driverStorageClasses h"
    if "m \<noteq> []"
      and "handleInjectDriverReadySelector ext h r = (Responded (http_Error m StatusBadRequest), h)"
    for m
    using that by (intro exI [of _ m]) (simp add: http_Error_def StatusBadRequest_def)
  from assms(2) consider
      (decode) err where "jsonDecodeReview ext (Body r) = Inl err"
    | (operation) admrev req where "jsonDecodeReview ext (Body r) = Inr admrev"
        "Request admrev = Some req" "Operation req \<noteq> Create"
    | (pod) admrev req err where "jsonDecodeReview ext (Body r) = Inr admrev"
        "Request admrev = Some req" "Operation req = Create"
        "jsonUnmarshalPod ext (ObjectRaw req) = Inl err"
    by blast
  then show ?thesis
  proof cases
    case decode
    show ?thesis
      by (rule fin [of "''unable to decode request: '' @ err"])
         (simp_all add: handle_decode_error [OF assms(1) decode])
  next
    case operation
    show ?thesis
      by (rule fin [of unsupportedOperationMessage])
         (simp_all add: handle_not_create [OF assms(1) operation] unsupportedOperationMessage_def)
  next
    case pod
    show ?thesis
      by (rule fin [of "''unable to decode request object, expected v1/Pod: '' @ err"])
         (simp_all add: handle_pod_error [OF assms(1) pod])
  qed
qed

theorem bad_request_answers_400_witness:
  "jsonDecodeReview sampleExternals ''not json'' = Inl ''invalid character''
   \<and> respondedWith (fst (handleInjectDriverReadySelector sampleExternals sampleHandler
        \<lparr>Method = ''POST'', Body = ''not json''\<rparr>)) 400
   \<and> driverStorageClasses (snd (handleInjectDriverReadySelector sampleExternals sampleHandler
        \<lparr>Method = ''POST'', Body = ''not json''\<rparr>)) = driverStorageClasses sampleHandler
   \<and> respondedWith (fst (handleInjectDriverReadySelector sampleExternals sampleHandler
        \<lparr>Method = ''POST'', Body = ''delete labelled''\<rparr>)) 400
   \<and> driverStorageClasses (snd (handleInjectDriverReadySelector sampleExternals sampleHandler
        \<lparr>Method = ''POST'', Body = ''delete labelled''\<rparr>)) = driverStorageClasses sampleHandler
   \<and> respondedWith (fst (handleInjectDriverReadySelector sampleExternals sampleHandler
        \<lparr>Method = ''POST'', Body = ''create broken''\<rparr>)) 400
   \<and> driverStorageClasses (snd (handleInjectDriverReadySelector sampleExternals sampleHandler
        \<lparr>Method = ''POST'', Body = ''create broken''\<rparr>)) = driverStorageClasses sampleHandler"
proof -
  have post: "Method \<lparr>Method = ''POST'', Body = b\<rparr> = MethodPost" for b
    by (simp add: MethodPost_def)
  have c1: "(\<exists>err. jsonDecodeReview sampleExternals (Body \<lparr>Method = ''POST'', Body = ''not json''\<rparr>) = Inl err)
       \<or> (\<exists>admrev req. jsonDecodeReview sampleExternals (Body \<lparr>Method = ''POST'', Body = ''not json''\<rparr>) = Inr admrev
             \<and> Request admrev = Some req \<and> Operation req \<noteq> Create)
       \<or> (\<exists>admrev req err. jsonDecodeReview sampleExternals (Body \<lparr>Method = ''POST'', Body = ''not json''\<rparr>) = Inr admrev
             \<and> Request admrev = Some req \<and> Operation req = Create
             \<and> jsonUnmarshalPod sampleExternals (ObjectRaw req) = Inl err)"
    by (simp add: sample_decode)
  have c2: "(\<exists>err. jsonDecodeReview sampleExternals (Body \<lparr>Method = ''POST'', Body = ''delete labelled''\<rparr>) = Inl err)
       \<or> (\<exists>admrev req. jsonDecodeReview sampleExternals (Body \<lparr>Method = ''POST'', Body = ''delete labelled''\<rparr>) = Inr admrev
             \<and> Request admrev = Some req \<and> Operation req \<noteq> Create)
       \<or> (\<exists>admrev req err. jsonDecodeReview sampleExternals (Body \<lparr>Method = ''POST'', Body = ''delete labelled''\<rparr>) = Inr admrev
             \<and> Request admrev = Some req \<and> Operation req = Create
             \<and> jsonUnmarshalPod sampleExternals (ObjectRaw req) = Inl err)"
    by (simp add: sample_decode sample_request Create_def)
  have c3: "(\<exists>err. jsonDecodeReview sampleExternals (Body \<lparr>Method = ''POST'', Body = ''create broken''\<rparr>) = Inl err)
       \<or> (\<exists>admrev req. jsonDecodeReview sampleExternals (Body \<lparr>Method = ''POST'', Body = ''create broken''\<rparr>) = Inr admrev
             \<and> Request admrev = Some req \<and> Operation req \<noteq> Create)
       \<or> (\<exists>admrev req err. jsonDecodeReview sampleExternals (Body \<lparr>Method = ''POST'', Body = ''create broken''\<rparr>) = Inr admrev
             \<and> Request admrev = Some req \<and> Operation req = Create
             \<and> jsonUnmarshalPod sampleExternals (ObjectRaw req) = Inl err)"
    by (simp add: sample_decode sample_request sample_pod Create_def)
  show ?thesis
    using bad_request_answers_400 [OF post c1, of sampleHandler]
      bad_request_answers_400 [OF post c2, of sampleHandler]
      bad_request_answers_400 [OF post c3, of sampleHandler]
    by (auto simp: sample_decode)
qed

text \<open>
  C9. A POST body that decodes to a review envelope without a request makes the handler
  panic with a nil pointer dereference where it reads the operation; no response is
  written, in particular no 400. Given a POST body that decodes, the handler writes a
  response exactly when the envelope carries a request (the decoders and the two pod
  predicates being calls that return).
\<close>

theorem nil_request_panics:
  assumes "Method r = MethodPost"
    and "jsonDecodeReview ext (Body r) = Inr admrev"
  shows "(Request admrev = None \<longrightarrow>
            handleInjectDriverReadySelector ext h r = (Panicked NilPointerDereference, h)
            \<and> \<not> respondedWith (fst (handleInjectDriverReadySelector ext h r)) 400)
       \<and> ((\<exists>w. fst (handleInjectDriverReadySelector ext h r) = Responded w)
            \<longleftrightarrow> Request admrev \<noteq> None)"
proof (cases "Request admrev")
  case None
  then show ?thesis
    using handle_nil_request [OF assms None, of h] by simp
next
  case (Some req)
  have "\<exists>w. fst (handleInjectDriverReadySelector ext h r) = Responded w"
  proof (cases "Operation req = Create")
    case False
    then show ?thesis
      using handle_not_create [OF assms Some, of h] by simp
  next
    case True
    show ?thesis
    proof (cases "jsonUnmarshalPod ext (ObjectRaw req)")
      case (Inl err)
      then show ?thesis
        using handle_pod_error [OF assms Some True, of err h] by simp
    next
      case (Inr pod0)
      then show ?thesis
        using handle_decided [OF assms Some True, of pod0 h] by simp
    qed
  qed
  with Some show ?thesis by simp
qed

theorem nil_request_panics_witness:
  "Method \<lparr>Method = ''POST'', Body = ''{}''\<rparr> = MethodPost
   \<and> jsonDecodeReview sampleExternals ''{}'' =
       Inr \<lparr>typeMeta = \<lparr>Kind = [], APIVersion = []\<rparr>, Request = None, Response = None\<rparr>
   \<and> handleInjectDriverReadySelector sampleExternals sampleHandler
        \<lparr>Method = ''POST'', Body = ''{}''\<rparr> = (Panicked NilPointerDereference, sampleHandler)
   \<and> \<not> respondedWith (fst (handleInjectDriverReadySelector sampleExternals sampleHandler
        \<lparr>Method = ''POST'', Body = ''{}''\<rparr>)) 400
   \<and> (\<exists>w. fst (handleInjectDriverReadySelector sampleExternals sampleHandler
        \<lparr>Method = ''POST'', Body = ''delete labelled''\<rparr>) = Responded w)"
proof -
  have post: "Method \<lparr>Method = ''POST'', Body = b\<rparr> = MethodPost" for b
    by (simp add: MethodPost_def)
  have d1: "jsonDecodeReview sampleExternals (Body \<lparr>Method = ''POST'', Body = ''{}''\<rparr>) =
              Inr \<lparr>typeMeta = \<lparr>Kind = [], APIVersion = []\<rparr>, Request = None, Response = None\<rparr>"
    by (simp add: sample_decode)
  have d2: "jsonDecodeReview sampleExternals (Body \<lparr>Method = ''POST'', Body = ''delete labelled''\<rparr>) =
              Inr (sampleReview ''DELETE'' ''labelled'')"
    by (simp add: sample_decode)
  show ?thesis
    using post [of "''{}''"] d1
      nil_request_panics [OF post d1, of sampleHandler]
      nil_request_panics [OF post d2, of sampleHandler]
    by (simp add: sample_request)
qed

end
